theory Spec2Isabelle
  imports Main
begin

section \<open>The Model business logic of the API server (apiserver/bll/model)\<close>

text \<open>
  A shallow embedding of \<^verbatim>\<open>ModelBLL\<close>. The two collections the class touches, Models
  and Tasks, are lists of documents in store order; every query and every write of the
  source is a function on these lists. An exception of the source is an \<open>Inl\<close> value
  returned together with the store as it is when the exception is raised.
\<close>

subsection \<open>Documents\<close>

text \<open>A datetime is represented by its ISO 8601 text, the value of \<^verbatim>\<open>isoformat()\<close>.\<close>

type_synonym datetime = string

text \<open>
  A Model document. \<open>m_company\<close> is \<open>None\<close> for a null or missing company; \<open>m_task\<close>
  is \<open>None\<close> for a Model with no originating Task. \<open>m_labels\<close> is the label mapping as
  the list of its fields, \<open>m_system_tags\<close> the stored array of tags.
\<close>

record Model =
  m_id :: string
  m_company :: "string option"
  m_ready :: bool
  m_task :: "string option"
  m_project :: "string option"
  m_uri :: "string option"
  m_labels :: "(string \<times> int) list"
  m_system_tags :: "string list"
  m_last_update :: datetime

text \<open>
  An element of \<^verbatim>\<open>models.input\<close> or \<^verbatim>\<open>models.output\<close> of a Task: a record whose
  \<^verbatim>\<open>model\<close> field holds a Model id (the queries of the source address it as
  \<^verbatim>\<open>models.input.model\<close>, \<^verbatim>\<open>models.output.model\<close> and \<^verbatim>\<open>elem.model\<close>).
\<close>

record ModelItem =
  item_name :: string
  item_model :: string

text \<open>
  A Task document, with the fields the class reads or writes: \<^verbatim>\<open>models.input\<close>,
  \<^verbatim>\<open>models.output\<close>, \<^verbatim>\<open>output.error\<close>, \<^verbatim>\<open>last_change\<close>, \<^verbatim>\<open>status\<close>.
\<close>

record Task =
  t_id :: string
  t_company :: "string option"
  t_status :: string
  t_models_input :: "ModelItem list"
  t_models_output :: "ModelItem list"
  t_output_error :: "string option"
  t_last_change :: datetime

text \<open>
  Modelled from the spec: \<^verbatim>\<open>TaskStatus.published\<close> is declared in
  apiserver.database.model.task.task, which is not among the sources; the spec names the
  status \<open>published\<close>.
\<close>

definition TaskStatus_published :: string where
  "TaskStatus_published = ''published''"

text \<open>
  Modelled from the spec: \<^verbatim>\<open>EntityVisibility.archived.value\<close> is declared in
  apiserver.database.model, which is not among the sources; the spec calls it the fixed
  "archived" tag value.
\<close>

definition EntityVisibility_archived :: string where
  "EntityVisibility_archived = ''archived''"

subsection \<open>Errors\<close>

text \<open>
  \<^verbatim>\<open>InvalidModelId\<close> is raised with the query (company, id) by
  \<^verbatim>\<open>get_company_model_by_id\<close> and with the requested ids by \<^verbatim>\<open>assert_exists\<close>.
  \<open>OperationFailure\<close> is the database rejecting a command; \<open>Raised\<close> is any exception of
  the injected callback.
\<close>

datatype invalid_model_id = By_query string string | By_ids "string list"

datatype error =
    InvalidModelId invalid_model_id
  | ModelIsReady string string
  | ModelInUse nat
  | ModelCreatingTaskExists string
  | OperationFailure string
  | Raised string

subsection \<open>The store and its write commands\<close>

text \<open>
  The \<^verbatim>\<open>$set\<close> entries and the top-level keys of the update document that
  \<^verbatim>\<open>delete_model\<close> passes to \<^verbatim>\<open>update_one\<close>.
\<close>

datatype set_entry =
    Set_output_elem_model string
  | Set_output_error string

datatype update_key =
    Dollar_set "set_entry list"
  | Plain_field string datetime

text \<open>
  The write commands the class issues, each with the arguments that decide its effect.
  The store keeps the commands it has applied, in order, in \<open>journal\<close>.
\<close>

datatype write_cmd =
    Update_many_input "string list" string string
  | Update_one_output string string "update_key list"
  | Update_model string datetime
  | Add_to_set_system_tags string string string datetime
  | Pull_system_tags string string string datetime
  | Delete_models string string

record store =
  models :: "Model list"
  tasks :: "Task list"
  journal :: "write_cmd list"

fun update_first :: "('a \<Rightarrow> bool) \<Rightarrow> ('a \<Rightarrow> 'a) \<Rightarrow> 'a list \<Rightarrow> 'a list" where
  "update_first P f [] = []"
| "update_first P f (x # xs) = (if P x then f x # xs else x # update_first P f xs)"

text \<open>
  The array-filtered \<^verbatim>\<open>$set\<close> of \<^verbatim>\<open>$[elem].model\<close>: only the elements whose
  \<^verbatim>\<open>model\<close> is \<open>model_id\<close> change.
\<close>

definition rewrite_items :: "string \<Rightarrow> string \<Rightarrow> ModelItem list \<Rightarrow> ModelItem list" where
  "rewrite_items model_id new_id items =
     map (\<lambda>e. if item_model e = model_id then e\<lparr>item_model := new_id\<rparr> else e) items"

fun apply_set :: "string \<Rightarrow> set_entry \<Rightarrow> Task \<Rightarrow> Task" where
  "apply_set model_id (Set_output_elem_model v) t =
     t\<lparr>t_models_output := rewrite_items model_id v (t_models_output t)\<rparr>"
| "apply_set model_id (Set_output_error msg) t = t\<lparr>t_output_error := Some msg\<rparr>"

fun apply_update_key :: "string \<Rightarrow> update_key \<Rightarrow> Task \<Rightarrow> Task" where
  "apply_update_key model_id (Dollar_set sets) t = foldl (\<lambda>t e. apply_set model_id e t) t sets"
| "apply_update_key model_id (Plain_field k v) t = t"

fun is_operator :: "update_key \<Rightarrow> bool" where
  "is_operator (Dollar_set sets) = True"
| "is_operator (Plain_field k v) = False"

definition add_to_set :: "'a \<Rightarrow> 'a list \<Rightarrow> 'a list" where
  "add_to_set v xs = (if v \<in> set xs then xs else xs @ [v])"

definition pull :: "'a \<Rightarrow> 'a list \<Rightarrow> 'a list" where
  "pull v xs = filter (\<lambda>x. x \<noteq> v) xs"

fun apply_write :: "write_cmd \<Rightarrow> store \<Rightarrow> store" where
  "apply_write (Update_many_input ids model_id new_id) s =
     s\<lparr>tasks := map (\<lambda>t. if t_id t \<in> set ids
                           then t\<lparr>t_models_input := rewrite_items model_id new_id (t_models_input t)\<rparr>
                           else t) (tasks s)\<rparr>"
| "apply_write (Update_one_output task_id model_id upd) s =
     s\<lparr>tasks := update_first
                  (\<lambda>t. t_id t = task_id \<and> model_id \<in> set (map item_model (t_models_output t)))
                  (\<lambda>t. foldl (\<lambda>t k. apply_update_key model_id k t) t upd) (tasks s)\<rparr>"
| "apply_write (Update_model pk now) s =
     s\<lparr>models := update_first (\<lambda>m. m_id m = pk)
                   (\<lambda>m. m\<lparr>m_ready := True, m_last_update := now\<rparr>) (models s)\<rparr>"
| "apply_write (Add_to_set_system_tags company_id model_id tag now) s =
     s\<lparr>models := map (\<lambda>m. if m_company m = Some company_id \<and> m_id m = model_id
                            then m\<lparr>m_system_tags := add_to_set tag (m_system_tags m),
                                   m_last_update := now\<rparr>
                            else m) (models s)\<rparr>"
| "apply_write (Pull_system_tags company_id model_id tag now) s =
     s\<lparr>models := map (\<lambda>m. if m_company m = Some company_id \<and> m_id m = model_id
                            then m\<lparr>m_system_tags := pull tag (m_system_tags m),
                                   m_last_update := now\<rparr>
                            else m) (models s)\<rparr>"
| "apply_write (Delete_models model_id company_id) s =
     s\<lparr>models := filter (\<lambda>m. \<not> (m_id m = model_id \<and> m_company m = Some company_id)) (models s)\<rparr>"

definition issue :: "write_cmd \<Rightarrow> store \<Rightarrow> store" where
  "issue w s = (apply_write w s)\<lparr>journal := journal s @ [w]\<rparr>"

definition replay :: "write_cmd list \<Rightarrow> store \<Rightarrow> store" where
  "replay ws s = foldl (\<lambda>s w. apply_write w s) s ws"

subsection \<open>Queries\<close>

text \<open>
  \<^verbatim>\<open>qs.only(*fields)\<close>: the fields not asked for are not loaded; the id always is.
\<close>

definition only_fields :: "string list \<Rightarrow> Model \<Rightarrow> Model" where
  "only_fields fs m =
     \<lparr>m_id = m_id m,
      m_company = (if ''company'' \<in> set fs then m_company m else None),
      m_ready = (if ''ready'' \<in> set fs then m_ready m else False),
      m_task = (if ''task'' \<in> set fs then m_task m else None),
      m_project = (if ''project'' \<in> set fs then m_project m else None),
      m_uri = (if ''uri'' \<in> set fs then m_uri m else None),
      m_labels = (if ''labels'' \<in> set fs then m_labels m else []),
      m_system_tags = (if ''system_tags'' \<in> set fs then m_system_tags m else []),
      m_last_update = (if ''last_update'' \<in> set fs then m_last_update m else [])\<rparr>"

definition only_opt :: "string list option \<Rightarrow> Model \<Rightarrow> Model" where
  "only_opt only m = (case only of None \<Rightarrow> m | Some fs \<Rightarrow> if fs = [] then m else only_fields fs m)"

definition first :: "'a list \<Rightarrow> 'a option" where
  "first xs = (case xs of [] \<Rightarrow> None | x # _ \<Rightarrow> Some x)"

text \<open>
  The query sets of the source: \<^verbatim>\<open>Model.objects(company=..., id=...)\<close>,
  \<^verbatim>\<open>Task.objects(models__input__model=...)\<close>, \<^verbatim>\<open>Task.objects(id=...)\<close> and
  \<^verbatim>\<open>Task.objects(id=..., company=...)\<close>.
\<close>

definition Model_objects :: "string \<Rightarrow> string \<Rightarrow> store \<Rightarrow> Model list" where
  "Model_objects company_id model_id s =
     filter (\<lambda>m. m_company m = Some company_id \<and> m_id m = model_id) (models s)"

definition Task_objects_input :: "string \<Rightarrow> store \<Rightarrow> Task list" where
  "Task_objects_input model_id s =
     filter (\<lambda>t. model_id \<in> set (map item_model (t_models_input t))) (tasks s)"

definition Task_objects_id :: "string \<Rightarrow> store \<Rightarrow> Task list" where
  "Task_objects_id task_id s = filter (\<lambda>t. t_id t = task_id) (tasks s)"

definition Task_objects_id_company :: "string \<Rightarrow> string \<Rightarrow> store \<Rightarrow> Task list" where
  "Task_objects_id_company task_id company_id s =
     filter (\<lambda>t. t_id t = task_id \<and> t_company t = Some company_id) (tasks s)"

definition get_company_model_by_id ::
    "string \<Rightarrow> string \<Rightarrow> string list option \<Rightarrow> store \<Rightarrow> error + Model" where
  "get_company_model_by_id company_id model_id only_fields_arg s =
     (case first (Model_objects company_id model_id s) of
        None \<Rightarrow> Inl (InvalidModelId (By_query company_id model_id))
      | Some model \<Rightarrow> Inr (only_opt only_fields_arg model))"

text \<open>
  Modelled from the spec: \<^verbatim>\<open>Model.get_many\<close> (apiserver.database.model.base) is not
  among the sources. The spec gives its visibility predicate: the company is the target
  company, or \<open>allow_public\<close> is set and the company is empty or null. The query of
  \<^verbatim>\<open>assert_exists\<close> is \<^verbatim>\<open>Q(id__in=ids)\<close>.
\<close>

definition is_public :: "Model \<Rightarrow> bool" where
  "is_public m = (m_company m = None \<or> m_company m = Some [])"

definition get_many :: "string \<Rightarrow> string list \<Rightarrow> bool \<Rightarrow> store \<Rightarrow> Model list" where
  "get_many company_id ids allow_public s =
     filter (\<lambda>m. (m_company m = Some company_id \<or> (allow_public \<and> is_public m))
                 \<and> m_id m \<in> set ids) (models s)"

text \<open>\<^verbatim>\<open>model_ids\<close> is one id (a str) or a sequence of ids.\<close>

datatype model_ids_arg = One string | Many "string list"

fun as_list :: "model_ids_arg \<Rightarrow> string list" where
  "as_list (One model_id) = [model_id]"
| "as_list (Many model_ids) = model_ids"

definition assert_exists ::
    "string \<Rightarrow> model_ids_arg \<Rightarrow> string list option \<Rightarrow> bool \<Rightarrow> bool \<Rightarrow> store
       \<Rightarrow> error + Model list option" where
  "assert_exists company_id model_ids_in only allow_public return_models s =
     (let model_ids = as_list model_ids_in;
          ids = remdups model_ids;
          q = map (only_opt only) (get_many company_id ids allow_public s)
      in if length q \<noteq> length ids then Inl (InvalidModelId (By_ids model_ids))
         else if return_models then Inr (Some q)
         else Inr None)"

subsection \<open>Python values\<close>

text \<open>
  \<^verbatim>\<open>if model.task\<close>: a missing or empty string is false.
\<close>

definition truthy :: "string option \<Rightarrow> bool" where
  "truthy v = (case v of None \<Rightarrow> False | Some x \<Rightarrow> x \<noteq> [])"

text \<open>
  \<^verbatim>\<open>x in xs\<close> compares \<open>x\<close> with each element by \<^verbatim>\<open>==\<close>. The values compared in
  this class are strings and items of \<^verbatim>\<open>models.output\<close>; a string and an item are
  never equal.
\<close>

datatype pyobj = PyStr string | PyItem ModelItem

definition py_in :: "pyobj \<Rightarrow> pyobj list \<Rightarrow> bool" where
  "py_in x xs = (x \<in> set xs)"

subsection \<open>publish\_model\<close>

text \<open>
  The injected \<^verbatim>\<open>publish_task_func(task_id, company_id, user_id, force)\<close>: it may change
  the store, and returns its result or raises.
\<close>

type_synonym 'r publish_task_func =
  "string \<Rightarrow> string \<Rightarrow> string \<Rightarrow> bool \<Rightarrow> store \<Rightarrow> (error + 'r) \<times> store"

record 'r ModelTaskPublishResponse =
  resp_id :: string
  resp_data :: 'r

text \<open>
  \<^verbatim>\<open>model.update(upsert=False, ready=True, last_update=...)\<close> updates the document with
  the primary key of \<open>model\<close> and returns the number of documents matched.
\<close>

definition model_update :: "Model \<Rightarrow> datetime \<Rightarrow> store \<Rightarrow> nat \<times> store" where
  "model_update model now s =
     ((if list_ex (\<lambda>m. m_id m = m_id model) (models s) then 1 else 0),
      issue (Update_model (m_id model) now) s)"

text \<open>Lines 69 to 82: the cascade to the originating Task.\<close>

definition publish_model_task ::
    "Model \<Rightarrow> string \<Rightarrow> string \<Rightarrow> bool \<Rightarrow> 'r publish_task_func option \<Rightarrow> store
       \<Rightarrow> (error + 'r ModelTaskPublishResponse option) \<times> store" where
  "publish_model_task model company_id user_id force_publish_task publish_task_func s =
     (case (m_task model, publish_task_func) of
        (Some model_task, Some f) \<Rightarrow>
          if truthy (m_task model) then
            (case first (Task_objects_id_company model_task company_id s) of
               None \<Rightarrow> (Inr None, s)
             | Some task \<Rightarrow>
                 if t_status task \<noteq> TaskStatus_published then
                   (case f model_task company_id user_id force_publish_task s of
                      (Inl e, s1) \<Rightarrow> (Inl e, s1)
                    | (Inr task_publish_res, s1) \<Rightarrow>
                        (Inr (Some \<lparr>resp_id = model_task, resp_data = task_publish_res\<rparr>), s1))
                 else (Inr None, s))
          else (Inr None, s)
      | _ \<Rightarrow> (Inr None, s))"

definition publish_model ::
    "string \<Rightarrow> string \<Rightarrow> string \<Rightarrow> bool \<Rightarrow> 'r publish_task_func option \<Rightarrow> datetime \<Rightarrow> store
       \<Rightarrow> (error + nat \<times> 'r ModelTaskPublishResponse option) \<times> store" where
  "publish_model model_id company_id user_id force_publish_task publish_task_func now s =
     (case get_company_model_by_id company_id model_id None s of
        Inl e \<Rightarrow> (Inl e, s)
      | Inr model \<Rightarrow>
          if m_ready model then (Inl (ModelIsReady company_id model_id), s)
          else
            (case publish_model_task model company_id user_id force_publish_task publish_task_func s of
               (Inl e, s1) \<Rightarrow> (Inl e, s1)
             | (Inr published_task, s1) \<Rightarrow>
                 (case model_update model now s1 of
                    (updated, s2) \<Rightarrow> (Inr (updated, published_task), s2))))"

subsection \<open>delete\_model\<close>

text \<open>
  \<^verbatim>\<open>update_one\<close> on the Task collection: the server accepts an update document only if
  every top-level key is an update operator, and rejects the command otherwise.
\<close>

definition update_one_output ::
    "string \<Rightarrow> string \<Rightarrow> update_key list \<Rightarrow> store \<Rightarrow> (error + unit) \<times> store" where
  "update_one_output task_id model_id upd s =
     (if list_all is_operator upd
      then (Inr (), issue (Update_one_output task_id model_id upd) s)
      else (Inl (OperationFailure ''Unknown modifier''), s))"

text \<open>Lines 98 to 111: the Tasks that use the Model as input, of any company.\<close>

definition delete_model_using_tasks ::
    "string \<Rightarrow> string \<Rightarrow> bool \<Rightarrow> store \<Rightarrow> (error + unit) \<times> store" where
  "delete_model_using_tasks model_id deleted_model_id force s =
     (let using_tasks = Task_objects_input model_id s
      in if using_tasks \<noteq> [] then
           if \<not> force then (Inl (ModelInUse (length using_tasks)), s)
           else (Inr (), issue (Update_many_input (map t_id using_tasks) model_id deleted_model_id) s)
         else (Inr (), s))"

text \<open>Lines 113 to 133: the Task that created the Model, of any company.\<close>

definition delete_model_creating_task ::
    "Model \<Rightarrow> string \<Rightarrow> string \<Rightarrow> bool \<Rightarrow> datetime \<Rightarrow> store \<Rightarrow> (error + unit) \<times> store" where
  "delete_model_creating_task model model_id deleted_model_id force now s =
     (case m_task model of
        None \<Rightarrow> (Inr (), s)
      | Some model_task \<Rightarrow>
          if truthy (m_task model) then
            (case first (Task_objects_id model_task s) of
               None \<Rightarrow> (Inr (), s)
             | Some task \<Rightarrow>
                 if t_status task = TaskStatus_published then
                   if \<not> force then (Inl (ModelCreatingTaskExists model_task), s)
                   else if t_models_output task \<noteq> []
                           \<and> py_in (PyStr model_id) (map PyItem (t_models_output task))
                   then update_one_output model_task model_id
                          [Dollar_set [Set_output_elem_model deleted_model_id,
                                       Set_output_error (''model deleted on '' @ now)],
                           Plain_field ''last_change'' now] s
                   else (Inr (), s)
                 else (Inr (), s))
          else (Inr (), s))"

text \<open>
  \<open>deleted_prefix\<close> is imported from apiserver.bll.task.utils, which is not among the
  sources; it is a parameter here.
\<close>

definition delete_model ::
    "string \<Rightarrow> string \<Rightarrow> string \<Rightarrow> bool \<Rightarrow> datetime \<Rightarrow> store \<Rightarrow> (error + nat \<times> Model) \<times> store" where
  "delete_model deleted_prefix model_id company_id force now s =
     (case get_company_model_by_id company_id model_id
             (Some [''id'', ''task'', ''project'', ''uri'']) s of
        Inl e \<Rightarrow> (Inl e, s)
      | Inr model \<Rightarrow>
          (let deleted_model_id = deleted_prefix @ model_id
           in case delete_model_using_tasks model_id deleted_model_id force s of
                (Inl e, s1) \<Rightarrow> (Inl e, s1)
              | (Inr _, s1) \<Rightarrow>
                  (case delete_model_creating_task model model_id deleted_model_id force now s1 of
                     (Inl e, s2) \<Rightarrow> (Inl e, s2)
                   | (Inr _, s2) \<Rightarrow>
                       (Inr (length (Model_objects company_id model_id s2), model),
                        issue (Delete_models model_id company_id) s2))))"

subsection \<open>archive\_model and unarchive\_model\<close>

text \<open>
  \<^verbatim>\<open>Model.objects(company=..., id=...).update(...)\<close> updates every matching document and
  returns the number of documents matched.
\<close>

definition archive_model :: "string \<Rightarrow> string \<Rightarrow> datetime \<Rightarrow> store \<Rightarrow> (error + nat) \<times> store" where
  "archive_model model_id company_id now s =
     (case get_company_model_by_id company_id model_id (Some [''id'']) s of
        Inl e \<Rightarrow> (Inl e, s)
      | Inr _ \<Rightarrow>
          (Inr (length (Model_objects company_id model_id s)),
           issue (Add_to_set_system_tags company_id model_id EntityVisibility_archived now) s))"

definition unarchive_model :: "string \<Rightarrow> string \<Rightarrow> datetime \<Rightarrow> store \<Rightarrow> (error + nat) \<times> store" where
  "unarchive_model model_id company_id now s =
     (case get_company_model_by_id company_id model_id (Some [''id'']) s of
        Inl e \<Rightarrow> (Inl e, s)
      | Inr _ \<Rightarrow>
          (Inr (length (Model_objects company_id model_id s)),
           issue (Pull_system_tags company_id model_id EntityVisibility_archived now) s))"

subsection \<open>get\_model\_stats\<close>

record stats = labels_count :: nat

text \<open>
  The dict comprehension \<^verbatim>\<open>{r.pop("_id"): r for r in result}\<close>: a later row replaces an
  earlier one with the same key.
\<close>

definition dict_of :: "('k \<times> 'v) list \<Rightarrow> ('k \<rightharpoonup> 'v)" where
  "dict_of rows = foldl (\<lambda>d (k, v). d(k \<mapsto> v)) Map.empty rows"

definition aggregate_stats :: "string \<Rightarrow> string list \<Rightarrow> store \<Rightarrow> (string \<times> stats) list" where
  "aggregate_stats company model_ids s =
     map (\<lambda>m. (m_id m, \<lparr>labels_count = length (m_labels m)\<rparr>))
       (filter (\<lambda>m. m_company m \<in> {None, Some [], Some company} \<and> m_id m \<in> set model_ids)
          (models s))"

definition get_model_stats :: "string \<Rightarrow> string list \<Rightarrow> store \<Rightarrow> (string \<rightharpoonup> stats)" where
  "get_model_stats company model_ids s =
     (if model_ids = [] then Map.empty else dict_of (aggregate_stats company model_ids s))"

subsection \<open>Reference rewrites\<close>

text \<open>
  The write commands that rewrite a reference to a Model in a Task: the bulk rewrite of
  \<^verbatim>\<open>models.input\<close> and the conditional rewrite of \<^verbatim>\<open>models.output\<close>.
\<close>

fun is_reference_rewrite :: "write_cmd \<Rightarrow> bool" where
  "is_reference_rewrite (Update_many_input ids model_id new_id) = True"
| "is_reference_rewrite (Update_one_output task_id model_id upd) = True"
| "is_reference_rewrite w = False"

text \<open>
  The removal of the Model documents, which \<open>delete_model\<close> issues when it does not raise.
\<close>

definition removal :: "error + 'a \<Rightarrow> string \<Rightarrow> string \<Rightarrow> write_cmd list" where
  "removal r model_id company_id =
     (case r of Inl e \<Rightarrow> [] | Inr v \<Rightarrow> [Delete_models model_id company_id])"

subsection \<open>A sample store\<close>

text \<open>
  The store of the end-to-end scenario: a Model \<open>M\<close> of company \<open>C1\<close>, not ready, used
  as input by Task \<open>T1\<close> of another company and listed as output by its published
  originating Task \<open>T2\<close>; and a public, ready Model \<open>P\<close>.
\<close>

definition sample_model :: Model where
  "sample_model =
     \<lparr>m_id = ''M'', m_company = Some ''C1'', m_ready = False, m_task = Some ''T2'',
      m_project = None, m_uri = Some ''s3://bucket/M'',
      m_labels = [(''cat'', 0), (''dog'', 1), (''bird'', 2)], m_system_tags = [],
      m_last_update = ''2020-01-01T00:00:00''\<rparr>"

definition public_model :: Model where
  "public_model =
     \<lparr>m_id = ''P'', m_company = Some [], m_ready = True, m_task = None,
      m_project = None, m_uri = None, m_labels = [], m_system_tags = [],
      m_last_update = ''2020-01-01T00:00:00''\<rparr>"

definition foreign_model :: Model where
  "foreign_model =
     \<lparr>m_id = ''O'', m_company = Some ''C2'', m_ready = False, m_task = None,
      m_project = None, m_uri = None, m_labels = [(''x'', 0)], m_system_tags = [],
      m_last_update = ''2020-01-01T00:00:00''\<rparr>"

definition using_task :: Task where
  "using_task =
     \<lparr>t_id = ''T1'', t_company = Some ''C2'', t_status = ''created'',
      t_models_input = [\<lparr>item_name = ''in'', item_model = ''M''\<rparr>],
      t_models_output = [], t_output_error = None,
      t_last_change = ''2020-01-01T00:00:00''\<rparr>"

definition creating_task :: Task where
  "creating_task =
     \<lparr>t_id = ''T2'', t_company = Some ''C1'', t_status = ''published'',
      t_models_input = [],
      t_models_output = [\<lparr>item_name = ''out'', item_model = ''M''\<rparr>],
      t_output_error = None, t_last_change = ''2020-01-01T00:00:00''\<rparr>"

definition sample_store :: store where
  "sample_store = \<lparr>models = [sample_model, public_model],
                    tasks = [using_task, creating_task], journal = []\<rparr>"

text \<open>Two callbacks: one that raises, one that returns a payload.\<close>

definition failing_publish_task :: "string publish_task_func" where
  "failing_publish_task task_id company_id user_id force s = (Inl (Raised ''publish failed''), s)"

definition working_publish_task :: "string publish_task_func" where
  "working_publish_task task_id company_id user_id force s = (Inr (''published '' @ task_id), s)"

lemmas sample_defs =
  sample_store_def sample_model_def public_model_def foreign_model_def using_task_def
  creating_task_def

section \<open>Properties\<close>

subsection \<open>Auxiliary facts\<close>

lemma first_Some_mem: "first xs = Some x \<Longrightarrow> x \<in> set xs"
  by (cases xs) (simp_all add: first_def)

lemma first_None_iff: "first xs = None \<longleftrightarrow> xs = []"
  by (cases xs) (simp_all add: first_def)

lemma py_in_str_items: "\<not> py_in (PyStr x) (map PyItem xs)"
  by (auto simp: py_in_def)

lemma only_opt_id: "m_id (only_opt only m) = m_id m"
  by (simp add: only_opt_def only_fields_def split: option.splits)

lemma resolved_id:
  assumes "get_company_model_by_id company_id model_id only s = Inr model"
  shows "m_id model = model_id"
proof -
  from assms obtain m where f: "first (Model_objects company_id model_id s) = Some m"
    and m: "model = only_opt only m"
    by (auto simp: get_company_model_by_id_def split: option.splits)
  from first_Some_mem [OF f] have "m_id m = model_id"
    by (simp add: Model_objects_def)
  then show ?thesis using m by (simp add: only_opt_id)
qed

lemma Model_objects_other_fields [simp]:
  "Model_objects c i (s\<lparr>tasks := ts\<rparr>) = Model_objects c i s"
  "Model_objects c i (s\<lparr>journal := j\<rparr>) = Model_objects c i s"
  by (simp_all add: Model_objects_def)

lemma rewrite_items_id:
  "model_id \<notin> set (map item_model items) \<Longrightarrow> rewrite_items model_id d items = items"
  by (induction items) (auto simp: rewrite_items_def)

text \<open>
  The bulk rewrite selects Tasks by id, but it changes exactly the input elements that
  name the Model: on every other Task the array filter matches nothing.
\<close>

lemma update_many_using:
  "apply_write (Update_many_input (map t_id (Task_objects_input model_id s)) model_id d) s
   = s\<lparr>tasks := map (\<lambda>t. t\<lparr>t_models_input := rewrite_items model_id d (t_models_input t)\<rparr>)
                   (tasks s)\<rparr>"
proof -
  have "map (\<lambda>t. if t_id t \<in> set (map t_id (Task_objects_input model_id s))
                  then t\<lparr>t_models_input := rewrite_items model_id d (t_models_input t)\<rparr>
                  else t) (tasks s)
        = map (\<lambda>t. t\<lparr>t_models_input := rewrite_items model_id d (t_models_input t)\<rparr>) (tasks s)"
  proof (rule map_cong [OF refl])
    fix t assume t: "t \<in> set (tasks s)"
    show "(if t_id t \<in> set (map t_id (Task_objects_input model_id s))
           then t\<lparr>t_models_input := rewrite_items model_id d (t_models_input t)\<rparr> else t)
          = t\<lparr>t_models_input := rewrite_items model_id d (t_models_input t)\<rparr>"
    proof (cases "model_id \<in> set (map item_model (t_models_input t))")
      case True
      with t have "t \<in> set (Task_objects_input model_id s)"
        by (simp add: Task_objects_input_def)
      then have "t_id t \<in> set (map t_id (Task_objects_input model_id s))"
        by simp
      then show ?thesis by simp
    next
      case False
      then show ?thesis by (simp add: rewrite_items_id)
    qed
  qed
  then show ?thesis by simp
qed

text \<open>
  With \<open>force\<close> set, the block for the creating Task writes nothing and raises nothing:
  the test \<^verbatim>\<open>model_id in task.models.output\<close> compares a string with items.
\<close>

lemma delete_model_creating_task_force:
  "delete_model_creating_task model model_id d True now s = (Inr (), s)"
  by (simp add: delete_model_creating_task_def py_in_str_items split: option.splits)

subsection \<open>assert\_exists\<close>

text \<open>
  C3. For every company and every requested ids (one id or a sequence, with N distinct
  ids among them): when the number of Models found under the visibility rule is not N,
  \<open>assert_exists\<close> raises \<open>InvalidModelId\<close> carrying the requested ids as they were
  given; the Models that were found are not returned.
\<close>

theorem assert_exists_partial_match_fails:
  assumes "length (get_many company_id (as_list model_ids) allow_public s)
             \<noteq> card (set (as_list model_ids))"
  shows "assert_exists company_id model_ids only allow_public return_models s
           = Inl (InvalidModelId (By_ids (as_list model_ids)))"
proof -
  have "get_many company_id (remdups (as_list model_ids)) allow_public s
          = get_many company_id (as_list model_ids) allow_public s"
    by (simp add: get_many_def)
  moreover have "length (remdups (as_list model_ids)) = card (set (as_list model_ids))"
    by (simp add: length_remdups_card_conv)
  ultimately show ?thesis
    using assms by (simp add: assert_exists_def Let_def)
qed

theorem assert_exists_partial_match_fails_witness:
  "length (get_many ''C1'' (as_list (Many [''M'', ''P''])) False sample_store)
     \<noteq> card (set (as_list (Many [''M'', ''P''])))
   \<and> assert_exists ''C1'' (Many [''M'', ''P'']) None False True sample_store
       = Inl (InvalidModelId (By_ids [''M'', ''P'']))"
proof -
  have h: "length (get_many ''C1'' (as_list (Many [''M'', ''P''])) False sample_store)
             \<noteq> card (set (as_list (Many [''M'', ''P''])))"
    by (simp add: get_many_def is_public_def sample_defs)
  show ?thesis
    using h assert_exists_partial_match_fails [OF h, of None True] by simp
qed

subsection \<open>publish\_model\<close>

text \<open>
  C4. For every Model that \<open>publish_model\<close> resolves and whose \<open>ready\<close> is true,
  \<open>publish_model\<close> raises \<open>ModelIsReady\<close>, whatever the Tasks are and whatever callback
  is injected, and the store is left as it was: no document changes and no write is
  issued, and the result does not depend on the callback.
\<close>

theorem publish_model_ready_fails:
  assumes "get_company_model_by_id company_id model_id None s = Inr model"
    and "m_ready model"
  shows "publish_model model_id company_id user_id force_publish_task publish_task_func now s
           = (Inl (ModelIsReady company_id model_id), s)"
  using assms by (simp add: publish_model_def)

theorem publish_model_ready_fails_witness:
  "get_company_model_by_id [] ''P'' None sample_store = Inr public_model
   \<and> m_ready public_model
   \<and> publish_model ''P'' [] ''U'' True
        (Some working_publish_task)
        ''2021-06-01T00:00:00'' sample_store
       = (Inl (ModelIsReady [] ''P''), sample_store)"
proof -
  have h1: "get_company_model_by_id [] ''P'' None sample_store = Inr public_model"
    by (simp add: get_company_model_by_id_def Model_objects_def first_def only_opt_def sample_defs)
  have h2: "m_ready public_model"
    by (simp add: public_model_def)
  show ?thesis
    using h1 h2 publish_model_ready_fails [OF h1 h2] by simp
qed

text \<open>
  C5. When \<open>publish_model\<close> reaches the callback (the Model resolves, is not ready, and
  its Task is found under the company with a status other than published) and the
  callback raises, \<open>publish_model\<close> raises the same exception, and the store is exactly
  the one the callback left: \<open>publish_model\<close> has written nothing of its own, so
  \<open>ready\<close> and \<open>last_update\<close> of the Model are not yet set.
\<close>

theorem publish_model_callback_raises:
  assumes "get_company_model_by_id company_id model_id None s = Inr model"
    and "\<not> m_ready model"
    and "m_task model = Some task_id" and "task_id \<noteq> []"
    and "first (Task_objects_id_company task_id company_id s) = Some task"
    and "t_status task \<noteq> TaskStatus_published"
    and "publish_task_func task_id company_id user_id force_publish_task s = (Inl e, s1)"
  shows "publish_model model_id company_id user_id force_publish_task
           (Some publish_task_func) now s = (Inl e, s1)"
  using assms by (simp add: publish_model_def publish_model_task_def truthy_def)

theorem publish_model_callback_raises_witness:
  "get_company_model_by_id ''C1'' ''M'' None
     (sample_store\<lparr>tasks := [creating_task\<lparr>t_status := ''completed''\<rparr>]\<rparr>) = Inr sample_model
   \<and> \<not> m_ready sample_model
   \<and> m_task sample_model = Some ''T2'' \<and> ''T2'' \<noteq> []
   \<and> first (Task_objects_id_company ''T2'' ''C1''
        (sample_store\<lparr>tasks := [creating_task\<lparr>t_status := ''completed''\<rparr>]\<rparr>))
       = Some (creating_task\<lparr>t_status := ''completed''\<rparr>)
   \<and> t_status (creating_task\<lparr>t_status := ''completed''\<rparr>) \<noteq> TaskStatus_published
   \<and> publish_model ''M'' ''C1'' ''U'' False
        (Some failing_publish_task)
        ''2021-06-01T00:00:00''
        (sample_store\<lparr>tasks := [creating_task\<lparr>t_status := ''completed''\<rparr>]\<rparr>)
       = (Inl (Raised ''publish failed''),
          sample_store\<lparr>tasks := [creating_task\<lparr>t_status := ''completed''\<rparr>]\<rparr>)"
proof -
  let ?s = "sample_store\<lparr>tasks := [creating_task\<lparr>t_status := ''completed''\<rparr>]\<rparr>"
  have h1: "get_company_model_by_id ''C1'' ''M'' None ?s = Inr sample_model"
    by (simp add: get_company_model_by_id_def Model_objects_def first_def only_opt_def sample_defs)
  have h2: "\<not> m_ready sample_model" and h3: "m_task sample_model = Some ''T2''"
    by (simp_all add: sample_model_def)
  have h4: "''T2'' \<noteq> []" by simp
  have h5: "first (Task_objects_id_company ''T2'' ''C1'' ?s)
              = Some (creating_task\<lparr>t_status := ''completed''\<rparr>)"
    by (simp add: Task_objects_id_company_def first_def sample_defs)
  have h6: "t_status (creating_task\<lparr>t_status := ''completed''\<rparr>) \<noteq> TaskStatus_published"
    by (simp add: TaskStatus_published_def)
  have h7: "failing_publish_task ''T2'' ''C1'' ''U'' False ?s = (Inl (Raised ''publish failed''), ?s)"
    by (simp add: failing_publish_task_def)
  show ?thesis
    using h1 h2 h3 h4 h5 h6
      publish_model_callback_raises [where publish_task_func = failing_publish_task
        and now = "''2021-06-01T00:00:00''", OF h1 h2 h3 h4 h5 h6 h7]
    by simp
qed

text \<open>
  C6. For a Model that \<open>publish_model\<close> resolves, that is not ready and that names a Task,
  with a callback injected: the Task is fetched by its id under the company. If it is
  found with a status other than published, the callback is called with the Task id, the
  company, the user and the force flag, and when it returns \<open>res\<close> the result of
  \<open>publish_model\<close> is the update count paired with the response holding the Task id and
  \<open>res\<close>, the Model being updated in the store the callback left. If the Task is not
  found or is published, the result is the update count paired with no response, whatever
  the callback is, and the Model is updated in the initial store.
\<close>

theorem publish_model_cascade:
  assumes "get_company_model_by_id company_id model_id None s = Inr model"
    and "\<not> m_ready model"
    and "m_task model = Some task_id" and "task_id \<noteq> []"
  shows "(\<forall>task res s1.
            first (Task_objects_id_company task_id company_id s) = Some task
            \<and> t_status task \<noteq> TaskStatus_published
            \<and> publish_task_func task_id company_id user_id force_publish_task s = (Inr res, s1)
            \<longrightarrow> publish_model model_id company_id user_id force_publish_task
                  (Some publish_task_func) now s
                = (Inr (if list_ex (\<lambda>m. m_id m = model_id) (models s1) then 1 else 0,
                        Some \<lparr>resp_id = task_id, resp_data = res\<rparr>),
                   issue (Update_model model_id now) s1))
       \<and> ((first (Task_objects_id_company task_id company_id s) = None
            \<or> (\<exists>task. first (Task_objects_id_company task_id company_id s) = Some task
                       \<and> t_status task = TaskStatus_published))
            \<longrightarrow> publish_model model_id company_id user_id force_publish_task
                  (Some publish_task_func) now s
                = (Inr (if list_ex (\<lambda>m. m_id m = model_id) (models s) then 1 else 0, None),
                   issue (Update_model model_id now) s))"
  using assms resolved_id [OF assms(1)]
  by (auto simp add: publish_model_def publish_model_task_def truthy_def model_update_def)

theorem publish_model_cascade_witness:
  "get_company_model_by_id ''C1'' ''M'' None
     (sample_store\<lparr>tasks := [creating_task\<lparr>t_status := ''completed''\<rparr>]\<rparr>) = Inr sample_model
   \<and> \<not> m_ready sample_model
   \<and> m_task sample_model = Some ''T2'' \<and> ''T2'' \<noteq> []
   \<and> first (Task_objects_id_company ''T2'' ''C1''
        (sample_store\<lparr>tasks := [creating_task\<lparr>t_status := ''completed''\<rparr>]\<rparr>))
       = Some (creating_task\<lparr>t_status := ''completed''\<rparr>)
   \<and> t_status (creating_task\<lparr>t_status := ''completed''\<rparr>) \<noteq> TaskStatus_published
   \<and> publish_model ''M'' ''C1'' ''U'' False (Some working_publish_task) ''2021-06-01T00:00:00''
        (sample_store\<lparr>tasks := [creating_task\<lparr>t_status := ''completed''\<rparr>]\<rparr>)
       = (Inr (1, Some \<lparr>resp_id = ''T2'', resp_data = ''published T2''\<rparr>),
          issue (Update_model ''M'' ''2021-06-01T00:00:00'')
            (sample_store\<lparr>tasks := [creating_task\<lparr>t_status := ''completed''\<rparr>]\<rparr>))"
proof -
  let ?s = "sample_store\<lparr>tasks := [creating_task\<lparr>t_status := ''completed''\<rparr>]\<rparr>"
  have h1: "get_company_model_by_id ''C1'' ''M'' None ?s = Inr sample_model"
    by (simp add: get_company_model_by_id_def Model_objects_def first_def only_opt_def sample_defs)
  have h2: "\<not> m_ready sample_model" and h3: "m_task sample_model = Some ''T2''"
    by (simp_all add: sample_model_def)
  have h4: "''T2'' \<noteq> []" by simp
  have h5: "first (Task_objects_id_company ''T2'' ''C1'' ?s)
              = Some (creating_task\<lparr>t_status := ''completed''\<rparr>)"
    by (simp add: Task_objects_id_company_def first_def sample_defs)
  have h6: "t_status (creating_task\<lparr>t_status := ''completed''\<rparr>) \<noteq> TaskStatus_published"
    by (simp add: TaskStatus_published_def)
  have h7: "working_publish_task ''T2'' ''C1'' ''U'' False ?s = (Inr ''published T2'', ?s)"
    by (simp add: working_publish_task_def)
  have h8: "list_ex (\<lambda>m. m_id m = ''M'') (models ?s)"
    by (simp add: sample_defs)
  note c = publish_model_cascade [where publish_task_func = working_publish_task
      and user_id = "''U''" and force_publish_task = False
      and now = "''2021-06-01T00:00:00''", OF h1 h2 h3 h4]
  from c h5 h6 h7 have
    "publish_model ''M'' ''C1'' ''U'' False (Some working_publish_task) ''2021-06-01T00:00:00'' ?s
       = (Inr (if list_ex (\<lambda>m. m_id m = ''M'') (models ?s) then 1 else 0,
               Some \<lparr>resp_id = ''T2'', resp_data = ''published T2''\<rparr>),
          issue (Update_model ''M'' ''2021-06-01T00:00:00'') ?s)"
    by blast
  with h8 have
    "publish_model ''M'' ''C1'' ''U'' False (Some working_publish_task) ''2021-06-01T00:00:00'' ?s
       = (Inr (1, Some \<lparr>resp_id = ''T2'', resp_data = ''published T2''\<rparr>),
          issue (Update_model ''M'' ''2021-06-01T00:00:00'') ?s)"
    by simp
  with h1 h2 h3 h4 h5 h6 show ?thesis by blast
qed

subsection \<open>delete\_model\<close>

text \<open>
  C1. For every Model that \<open>delete_model\<close> resolves and that at least one Task lists in
  \<^verbatim>\<open>models.input\<close>: without \<open>force\<close>, \<open>delete_model\<close> raises \<open>ModelInUse\<close> with the
  number of such Tasks and leaves the store as it was (nothing removed, nothing
  rewritten, no write issued). With \<open>force\<close>, it succeeds; in every Task, of any company,
  each input element naming the Model now names \<open>deleted_prefix\<close> followed by the id and
  nothing else in the Tasks changes; the Model documents of that id and company are
  removed; the bulk rewrite is issued first and the removal second.
\<close>

theorem delete_model_in_use:
  assumes "get_company_model_by_id company_id model_id
             (Some [''id'', ''task'', ''project'', ''uri'']) s = Inr model"
    and "Task_objects_input model_id s \<noteq> []"
  shows "delete_model deleted_prefix model_id company_id False now s
           = (Inl (ModelInUse (length (Task_objects_input model_id s))), s)
       \<and> delete_model deleted_prefix model_id company_id True now s
           = (Inr (length (Model_objects company_id model_id s), model),
              \<lparr>models = filter (\<lambda>m. \<not> (m_id m = model_id \<and> m_company m = Some company_id))
                          (models s),
               tasks = map (\<lambda>t. t\<lparr>t_models_input :=
                                    rewrite_items model_id (deleted_prefix @ model_id)
                                      (t_models_input t)\<rparr>) (tasks s),
               journal = journal s @
                 [Update_many_input (map t_id (Task_objects_input model_id s)) model_id
                    (deleted_prefix @ model_id),
                  Delete_models model_id company_id]\<rparr>)"
  using assms
  by (simp add: delete_model_def delete_model_using_tasks_def Let_def
        delete_model_creating_task_force issue_def update_many_using
      del: apply_write.simps(1))

theorem delete_model_in_use_witness:
  "get_company_model_by_id ''C1'' ''M'' (Some [''id'', ''task'', ''project'', ''uri''])
     sample_store = Inr (only_fields [''id'', ''task'', ''project'', ''uri''] sample_model)
   \<and> Task_objects_input ''M'' sample_store \<noteq> []
   \<and> delete_model ''__DELETED__'' ''M'' ''C1'' False ''2021-06-01T00:00:00'' sample_store
       = (Inl (ModelInUse 1), sample_store)
   \<and> delete_model ''__DELETED__'' ''M'' ''C1'' True ''2021-06-01T00:00:00'' sample_store
       = (Inr (1, only_fields [''id'', ''task'', ''project'', ''uri''] sample_model),
          \<lparr>models = [public_model],
           tasks = [using_task\<lparr>t_models_input :=
                                 [\<lparr>item_name = ''in'', item_model = ''__DELETED__M''\<rparr>]\<rparr>,
                    creating_task],
           journal = [Update_many_input [''T1''] ''M'' ''__DELETED__M'',
                      Delete_models ''M'' ''C1'']\<rparr>)"
proof -
  have h1: "get_company_model_by_id ''C1'' ''M'' (Some [''id'', ''task'', ''project'', ''uri''])
              sample_store = Inr (only_fields [''id'', ''task'', ''project'', ''uri''] sample_model)"
    by (simp add: get_company_model_by_id_def Model_objects_def first_def only_opt_def sample_defs)
  have h2: "Task_objects_input ''M'' sample_store \<noteq> []"
    by (simp add: Task_objects_input_def sample_defs)
  show ?thesis
    using h1 h2
      delete_model_in_use [OF h1 h2, of "''__DELETED__''" "''2021-06-01T00:00:00''"]
    by (simp add: Task_objects_input_def Model_objects_def rewrite_items_def sample_defs)
qed

text \<open>
  C2. The store of the end-to-end scenario, where the published Task \<open>T2\<close> lists the
  Model \<open>M\<close> in \<^verbatim>\<open>models.output\<close>: \<open>delete_model\<close> with \<open>force\<close> removes the Model and
  rewrites the input of \<open>T1\<close>, but leaves \<open>T2\<close> as it was. Its output element still names
  \<open>M\<close> and its \<^verbatim>\<open>output.error\<close> is still unset: the update of lines 122 to 133 is
  never issued.
\<close>

theorem delete_model_force_leaves_output:
  "delete_model ''__DELETED__'' ''M'' ''C1'' True ''2021-06-01T00:00:00''
      \<lparr>models = [sample_model, public_model], tasks = [using_task, creating_task], journal = []\<rparr>
   = (Inr (1, only_fields [''id'', ''task'', ''project'', ''uri''] sample_model),
      \<lparr>models = [public_model],
       tasks = [using_task\<lparr>t_models_input :=
                             [\<lparr>item_name = ''in'', item_model = ''__DELETED__M''\<rparr>]\<rparr>,
                creating_task],
       journal = [Update_many_input [''T1''] ''M'' ''__DELETED__M'',
                  Delete_models ''M'' ''C1'']\<rparr>)"
  by (simp add: delete_model_def delete_model_using_tasks_def delete_model_creating_task_def
      get_company_model_by_id_def Model_objects_def Task_objects_input_def Task_objects_id_def
      first_def only_opt_def only_fields_def truthy_def py_in_def issue_def rewrite_items_def
      TaskStatus_published_def Let_def sample_model_def public_model_def using_task_def
      creating_task_def)

subsection \<open>The order of the writes of delete\_model\<close>

text \<open>
  Every store \<open>delete_model\<close> goes through is the initial store with a prefix of the
  issued commands applied; the journal records the commands in order.
\<close>

lemma apply_write_journal:
  "apply_write w (s\<lparr>journal := j\<rparr>) = (apply_write w s)\<lparr>journal := j\<rparr>"
  by (cases w) simp_all

lemma journal_apply_write [simp]: "journal (apply_write w s) = journal s"
  by (cases w) simp_all

lemma replay_Nil [simp]: "replay [] s = s"
  by (simp add: replay_def)

lemma replay_Cons [simp]: "replay (w # ws) s = replay ws (apply_write w s)"
  by (simp add: replay_def)

lemma replay_append: "replay (a @ b) s = replay b (replay a s)"
  by (simp add: replay_def)

lemma replay_journal:
  "replay ws (s\<lparr>journal := j\<rparr>) = (replay ws s)\<lparr>journal := j\<rparr>"
  by (induction ws arbitrary: s) (simp_all add: apply_write_journal)

lemma journal_replay [simp]: "journal (replay ws s) = journal s"
  by (induction ws arbitrary: s) simp_all

lemma rewrite_keeps_models:
  "is_reference_rewrite w \<Longrightarrow> models (apply_write w s) = models s"
  by (cases w) simp_all

lemma rewrites_keep_models:
  "list_all is_reference_rewrite ws \<Longrightarrow> models (replay ws s) = models s"
  by (induction ws arbitrary: s) (simp_all add: rewrite_keeps_models)

lemma run_issue: "issue w s = (replay [w] s)\<lparr>journal := journal s @ [w]\<rparr>"
  by (simp add: issue_def)

lemma run_trans:
  assumes "s1 = (replay a s)\<lparr>journal := journal s @ a\<rparr>"
    and "s2 = (replay b s1)\<lparr>journal := journal s1 @ b\<rparr>"
  shows "s2 = (replay (a @ b) s)\<lparr>journal := journal s @ a @ b\<rparr>"
  using assms by (simp add: replay_append replay_journal)

lemma using_tasks_run:
  assumes "delete_model_using_tasks model_id d force s = (r1, s1)"
  shows "\<exists>rw. list_all is_reference_rewrite rw \<and> s1 = (replay rw s)\<lparr>journal := journal s @ rw\<rparr>"
proof (cases "s1 = s")
  case True
  then have "list_all is_reference_rewrite [] \<and> s1 = (replay [] s)\<lparr>journal := journal s @ []\<rparr>"
    by simp
  then show ?thesis by blast
next
  case False
  with assms have "s1 = issue (Update_many_input (map t_id (Task_objects_input model_id s)) model_id d) s"
    by (auto simp: delete_model_using_tasks_def Let_def split: if_splits)
  then have "list_all is_reference_rewrite [Update_many_input (map t_id (Task_objects_input model_id s)) model_id d]
      \<and> s1 = (replay [Update_many_input (map t_id (Task_objects_input model_id s)) model_id d] s)
              \<lparr>journal := journal s @ [Update_many_input (map t_id (Task_objects_input model_id s)) model_id d]\<rparr>"
    by (simp add: run_issue del: replay_Cons)
  then show ?thesis by blast
qed

lemma creating_task_run:
  assumes "delete_model_creating_task model model_id d force now s = (r2, s2)"
  shows "\<exists>rw. list_all is_reference_rewrite rw \<and> s2 = (replay rw s)\<lparr>journal := journal s @ rw\<rparr>"
proof (cases "s2 = s")
  case True
  then have "list_all is_reference_rewrite [] \<and> s2 = (replay [] s)\<lparr>journal := journal s @ []\<rparr>"
    by simp
  then show ?thesis by blast
next
  case False
  with assms obtain w where "is_reference_rewrite w" and "s2 = issue w s"
    by (auto simp: delete_model_creating_task_def update_one_output_def
        split: option.splits if_splits)
  then have "list_all is_reference_rewrite [w] \<and> s2 = (replay [w] s)\<lparr>journal := journal s @ [w]\<rparr>"
    by (simp add: run_issue del: replay_Cons)
  then show ?thesis by blast
qed

lemma delete_model_run:
  assumes "delete_model deleted_prefix model_id company_id force now s = (r, s')"
  shows "\<exists>rw. list_all is_reference_rewrite rw
           \<and> s' = (replay (rw @ removal r model_id company_id) s)
                    \<lparr>journal := journal s @ rw @ removal r model_id company_id\<rparr>"
proof (cases "get_company_model_by_id company_id model_id (Some [''id'', ''task'', ''project'', ''uri'']) s")
  case (Inl e)
  with assms have "r = Inl e" "s' = s" by (simp_all add: delete_model_def)
  then have "list_all is_reference_rewrite [] \<and> s' = (replay ([] @ removal r model_id company_id) s)
                    \<lparr>journal := journal s @ [] @ removal r model_id company_id\<rparr>"
    by (simp add: removal_def)
  then show ?thesis by blast
next
  case (Inr model)
  obtain r1 s1 where u: "delete_model_using_tasks model_id (deleted_prefix @ model_id) force s = (r1, s1)"
    by (cases "delete_model_using_tasks model_id (deleted_prefix @ model_id) force s")
  obtain r2 s2 where c: "delete_model_creating_task model model_id (deleted_prefix @ model_id) force now s1 = (r2, s2)"
    by (cases "delete_model_creating_task model model_id (deleted_prefix @ model_id) force now s1")
  from using_tasks_run [OF u] obtain rw1 where rw1: "list_all is_reference_rewrite rw1"
    and s1: "s1 = (replay rw1 s)\<lparr>journal := journal s @ rw1\<rparr>" by blast
  from creating_task_run [OF c] obtain rw2 where rw2: "list_all is_reference_rewrite rw2"
    and s2: "s2 = (replay rw2 s1)\<lparr>journal := journal s1 @ rw2\<rparr>" by blast
  note s12 = run_trans [OF s1 s2]
  show ?thesis
  proof (cases r1)
    case (Inl e)
    with assms Inr u have "r = Inl e" "s' = s1" by (simp_all add: delete_model_def Let_def)
    with rw1 s1 have "list_all is_reference_rewrite rw1 \<and> s' = (replay (rw1 @ removal r model_id company_id) s)
                    \<lparr>journal := journal s @ rw1 @ removal r model_id company_id\<rparr>"
      by (simp add: removal_def)
    then show ?thesis by blast
  next
    case r1: (Inr v1)
    show ?thesis
    proof (cases r2)
      case (Inl e)
      with assms Inr u c r1 have "r = Inl e" "s' = s2" by (simp_all add: delete_model_def Let_def)
      with rw1 rw2 s12 have "list_all is_reference_rewrite (rw1 @ rw2)
          \<and> s' = (replay ((rw1 @ rw2) @ removal r model_id company_id) s)
                    \<lparr>journal := journal s @ (rw1 @ rw2) @ removal r model_id company_id\<rparr>"
        by (simp add: removal_def)
      then show ?thesis by blast
    next
      case r2: (Inr v2)
      with assms Inr u c r1 have r: "\<exists>v. r = Inr v" and s': "s' = issue (Delete_models model_id company_id) s2"
        by (auto simp add: delete_model_def Let_def)
      from s' have "s' = (replay [Delete_models model_id company_id] s2)
                        \<lparr>journal := journal s2 @ [Delete_models model_id company_id]\<rparr>"
        by (simp only: run_issue)
      from run_trans [OF s12 this] r rw1 rw2
      have "list_all is_reference_rewrite (rw1 @ rw2)
          \<and> s' = (replay ((rw1 @ rw2) @ removal r model_id company_id) s)
                    \<lparr>journal := journal s @ (rw1 @ rw2) @ removal r model_id company_id\<rparr>"
        by (auto simp add: removal_def)
      then show ?thesis by blast
    qed
  qed
qed

text \<open>
  C7. In every execution of \<open>delete_model\<close>, whatever its result: the writes it issues
  are reference rewrites (the bulk rewrite of \<^verbatim>\<open>models.input\<close>, the conditional
  rewrite of \<^verbatim>\<open>models.output\<close>) followed, when it does not raise, by the removal of
  the Model, which is the last write; the final store is the initial one with these
  writes applied in this order. At every intermediate point, that is after any number of
  the rewrites, the Model collection is still the initial one, so the Model is still
  there while references are being renamed.
\<close>

theorem delete_model_rewrites_before_removal:
  assumes "delete_model deleted_prefix model_id company_id force now s = (r, s')"
  shows "\<exists>rewrites. list_all is_reference_rewrite rewrites
           \<and> s' = (replay (rewrites @ removal r model_id company_id) s)
                    \<lparr>journal := journal s @ rewrites @ removal r model_id company_id\<rparr>
           \<and> (\<forall>k \<le> length rewrites. models (replay (take k rewrites) s) = models s)"
proof -
  from delete_model_run [OF assms] obtain rw where rw: "list_all is_reference_rewrite rw"
    and s': "s' = (replay (rw @ removal r model_id company_id) s)
                    \<lparr>journal := journal s @ rw @ removal r model_id company_id\<rparr>"
    by blast
  have "models (replay (take k rw) s) = models s" for k
  proof -
    from rw have "list_all is_reference_rewrite (take k rw)"
      by (auto simp: list_all_iff dest: in_set_takeD)
    then show ?thesis by (rule rewrites_keep_models)
  qed
  with rw s' show ?thesis by blast
qed

theorem delete_model_rewrites_before_removal_witness:
  "delete_model ''__DELETED__'' ''M'' ''C1'' True ''2021-06-01T00:00:00'' sample_store
     = (Inr (1, only_fields [''id'', ''task'', ''project'', ''uri''] sample_model),
        \<lparr>models = [public_model],
         tasks = [using_task\<lparr>t_models_input :=
                               [\<lparr>item_name = ''in'', item_model = ''__DELETED__M''\<rparr>]\<rparr>,
                  creating_task],
         journal = [Update_many_input [''T1''] ''M'' ''__DELETED__M'',
                    Delete_models ''M'' ''C1'']\<rparr>)
   \<and> (\<exists>rewrites. list_all is_reference_rewrite rewrites
         \<and> \<lparr>models = [public_model],
            tasks = [using_task\<lparr>t_models_input :=
                                  [\<lparr>item_name = ''in'', item_model = ''__DELETED__M''\<rparr>]\<rparr>,
                     creating_task],
            journal = [Update_many_input [''T1''] ''M'' ''__DELETED__M'',
                       Delete_models ''M'' ''C1'']\<rparr>
           = (replay (rewrites @ [Delete_models ''M'' ''C1'']) sample_store)
               \<lparr>journal := journal sample_store @ rewrites @ [Delete_models ''M'' ''C1'']\<rparr>
         \<and> (\<forall>k \<le> length rewrites. models (replay (take k rewrites) sample_store)
                                      = models sample_store))"
proof -
  have h: "delete_model ''__DELETED__'' ''M'' ''C1'' True ''2021-06-01T00:00:00'' sample_store
     = (Inr (1, only_fields [''id'', ''task'', ''project'', ''uri''] sample_model),
        \<lparr>models = [public_model],
         tasks = [using_task\<lparr>t_models_input :=
                               [\<lparr>item_name = ''in'', item_model = ''__DELETED__M''\<rparr>]\<rparr>,
                  creating_task],
         journal = [Update_many_input [''T1''] ''M'' ''__DELETED__M'',
                    Delete_models ''M'' ''C1'']\<rparr>)"
    by (simp add: delete_model_def delete_model_using_tasks_def delete_model_creating_task_def
        get_company_model_by_id_def Model_objects_def Task_objects_input_def Task_objects_id_def
        first_def only_opt_def only_fields_def truthy_def py_in_def issue_def rewrite_items_def
        TaskStatus_published_def Let_def sample_defs)
  have r: "removal (Inr (1 :: nat, only_fields [''id'', ''task'', ''project'', ''uri''] sample_model)
             :: error + nat \<times> Model) ''M'' ''C1'' = [Delete_models ''M'' ''C1'']"
    by (simp add: removal_def)
  show ?thesis
    using h delete_model_rewrites_before_removal [OF h] unfolding r by (rule conjI)
qed

subsection \<open>archive\_model and unarchive\_model\<close>

lemma add_to_set_idem: "add_to_set v (add_to_set v xs) = add_to_set v xs"
  by (simp add: add_to_set_def)

lemma add_to_set_mem: "v \<in> set (add_to_set v xs)"
  by (simp add: add_to_set_def)

lemma add_to_set_distinct: "distinct xs \<Longrightarrow> distinct (add_to_set v xs)"
  by (simp add: add_to_set_def)

lemma pull_absent: "v \<notin> set xs \<Longrightarrow> pull v xs = xs"
  by (induction xs) (auto simp: pull_def)

lemma Model_objects_map:
  assumes "\<And>m. m_company (f m) = m_company m" and "\<And>m. m_id (f m) = m_id m"
  shows "Model_objects c i (s\<lparr>models := map f (models s)\<rparr>) = map f (Model_objects c i s)"
  using assms by (simp add: Model_objects_def filter_map o_def)

lemma resolved_iff:
  "(\<exists>model. get_company_model_by_id c i only s = Inr model) \<longleftrightarrow> Model_objects c i s \<noteq> []"
  by (cases "Model_objects c i s") (simp_all add: get_company_model_by_id_def first_def)

lemma archive_model_eq:
  assumes "Model_objects company_id model_id s \<noteq> []"
  shows "archive_model model_id company_id now s
           = (Inr (length (Model_objects company_id model_id s)),
              issue (Add_to_set_system_tags company_id model_id EntityVisibility_archived now) s)"
proof -
  from assms obtain model where "get_company_model_by_id company_id model_id (Some [''id'']) s = Inr model"
    using resolved_iff by blast
  then show ?thesis by (simp add: archive_model_def)
qed

lemma unarchive_model_eq:
  assumes "Model_objects company_id model_id s \<noteq> []"
  shows "unarchive_model model_id company_id now s
           = (Inr (length (Model_objects company_id model_id s)),
              issue (Pull_system_tags company_id model_id EntityVisibility_archived now) s)"
proof -
  from assms obtain model where "get_company_model_by_id company_id model_id (Some [''id'']) s = Inr model"
    using resolved_iff by blast
  then show ?thesis by (simp add: unarchive_model_def)
qed

lemma Model_objects_archived:
  "Model_objects c i (issue (Add_to_set_system_tags c' i' tag now) s)
     = map (\<lambda>m. if m_company m = Some c' \<and> m_id m = i'
                 then m\<lparr>m_system_tags := add_to_set tag (m_system_tags m), m_last_update := now\<rparr>
                 else m) (Model_objects c i s)"
  by (simp add: issue_def Model_objects_map)

lemma tags_archived_twice:
  "map m_system_tags (models (issue (Add_to_set_system_tags c i tag now2)
        (issue (Add_to_set_system_tags c i tag now1) s)))
   = map m_system_tags (models (issue (Add_to_set_system_tags c i tag now1) s))"
  by (simp add: issue_def add_to_set_idem)

lemma tags_unarchived:
  assumes "\<forall>m \<in> set (Model_objects c i s). tag \<notin> set (m_system_tags m)"
  shows "map m_system_tags (models (issue (Pull_system_tags c i tag now) s))
           = map m_system_tags (models s)"
  using assms by (simp add: issue_def Model_objects_def pull_absent)

text \<open>
  C8. For every Model that the operations resolve (the number \<open>n\<close> of documents with the
  id and company is then positive): \<open>archive_model\<close> returns \<open>n\<close>, the count of documents
  it updated; archiving again returns \<open>n\<close> and leaves every \<open>system_tags\<close> as the first
  archive left it; after archiving, the archived tag is in the tags of the Model, and if
  no tag list had a duplicate before, none has one after. On a Model that does not carry
  the archived tag, \<open>unarchive_model\<close> returns \<open>n\<close> and leaves every \<open>system_tags\<close>
  unchanged.
\<close>

theorem archive_unarchive_idempotent:
  assumes "get_company_model_by_id company_id model_id (Some [''id'']) s = Inr model"
  shows "0 < length (Model_objects company_id model_id s)
       \<and> fst (archive_model model_id company_id now1 s)
           = Inr (length (Model_objects company_id model_id s))
       \<and> fst (archive_model model_id company_id now2 (snd (archive_model model_id company_id now1 s)))
           = Inr (length (Model_objects company_id model_id s))
       \<and> map m_system_tags
           (models (snd (archive_model model_id company_id now2
                           (snd (archive_model model_id company_id now1 s)))))
           = map m_system_tags (models (snd (archive_model model_id company_id now1 s)))
       \<and> (\<forall>m \<in> set (Model_objects company_id model_id
                        (snd (archive_model model_id company_id now1 s))).
             EntityVisibility_archived \<in> set (m_system_tags m))
       \<and> ((\<forall>m \<in> set (models s). distinct (m_system_tags m))
            \<longrightarrow> (\<forall>m \<in> set (models (snd (archive_model model_id company_id now1 s))).
                   distinct (m_system_tags m)))
       \<and> ((\<forall>m \<in> set (Model_objects company_id model_id s).
               EntityVisibility_archived \<notin> set (m_system_tags m))
            \<longrightarrow> fst (unarchive_model model_id company_id now1 s)
                  = Inr (length (Model_objects company_id model_id s))
              \<and> map m_system_tags (models (snd (unarchive_model model_id company_id now1 s)))
                  = map m_system_tags (models s))"
proof -
  let ?a = "Add_to_set_system_tags company_id model_id EntityVisibility_archived"
  from assms have ne: "Model_objects company_id model_id s \<noteq> []"
    using resolved_iff by blast
  have ne1: "Model_objects company_id model_id (issue (?a now1) s) \<noteq> []"
    using ne by (simp add: Model_objects_archived)
  have len1: "length (Model_objects company_id model_id (issue (?a now1) s))
                = length (Model_objects company_id model_id s)"
    by (simp add: Model_objects_archived)
  have a1: "archive_model model_id company_id now1 s
              = (Inr (length (Model_objects company_id model_id s)), issue (?a now1) s)"
    by (rule archive_model_eq [OF ne])
  have a2: "archive_model model_id company_id now2 (issue (?a now1) s)
              = (Inr (length (Model_objects company_id model_id s)),
                 issue (?a now2) (issue (?a now1) s))"
    using archive_model_eq [OF ne1] len1 by simp
  have u: "unarchive_model model_id company_id now1 s
              = (Inr (length (Model_objects company_id model_id s)),
                 issue (Pull_system_tags company_id model_id EntityVisibility_archived now1) s)"
    by (rule unarchive_model_eq [OF ne])
  have mem: "\<forall>m \<in> set (Model_objects company_id model_id (issue (?a now1) s)).
               EntityVisibility_archived \<in> set (m_system_tags m)"
    unfolding Model_objects_archived by (auto simp: Model_objects_def add_to_set_mem)
  have dist: "(\<forall>m \<in> set (models s). distinct (m_system_tags m))
            \<longrightarrow> (\<forall>m \<in> set (models (issue (?a now1) s)). distinct (m_system_tags m))"
    by (auto simp: issue_def add_to_set_distinct)
  show ?thesis
    using ne mem dist by (simp add: a1 a2 u tags_archived_twice tags_unarchived)
qed

theorem archive_unarchive_idempotent_witness:
  "get_company_model_by_id ''C1'' ''M'' (Some [''id'']) sample_store
     = Inr (only_fields [''id''] sample_model)
   \<and> fst (archive_model ''M'' ''C1'' ''2021-06-01T00:00:00'' sample_store) = Inr 1
   \<and> fst (archive_model ''M'' ''C1'' ''2021-06-02T00:00:00''
            (snd (archive_model ''M'' ''C1'' ''2021-06-01T00:00:00'' sample_store))) = Inr 1
   \<and> map m_system_tags
        (models (snd (archive_model ''M'' ''C1'' ''2021-06-02T00:00:00''
                       (snd (archive_model ''M'' ''C1'' ''2021-06-01T00:00:00'' sample_store)))))
       = [[''archived''], []]
   \<and> fst (unarchive_model ''M'' ''C1'' ''2021-06-01T00:00:00'' sample_store) = Inr 1
   \<and> map m_system_tags
        (models (snd (unarchive_model ''M'' ''C1'' ''2021-06-01T00:00:00'' sample_store)))
       = [[], []]"
proof -
  have h: "get_company_model_by_id ''C1'' ''M'' (Some [''id'']) sample_store
             = Inr (only_fields [''id''] sample_model)"
    by (simp add: get_company_model_by_id_def Model_objects_def first_def only_opt_def sample_defs)
  have e1: "Model_objects ''C1'' ''M'' sample_store = [sample_model]"
    by (simp add: Model_objects_def sample_defs)
  have e2: "map m_system_tags
              (models (snd (archive_model ''M'' ''C1'' ''2021-06-01T00:00:00'' sample_store)))
            = [[''archived''], []]"
    by (simp add: archive_model_def h)
      (simp add: issue_def add_to_set_def EntityVisibility_archived_def sample_defs)
  have e3: "m_system_tags sample_model = []" "map m_system_tags (models sample_store) = [[], []]"
    by (simp_all add: sample_defs)
  show ?thesis
    using h archive_unarchive_idempotent [OF h, of "''2021-06-01T00:00:00''" "''2021-06-02T00:00:00''"]
    by (simp add: e1 e2 e3)
qed

subsection \<open>get\_model\_stats\<close>

lemma dict_of_fold:
  "foldl (\<lambda>d (k, v). d(k \<mapsto> v)) m rows = m ++ map_of (rev rows)"
proof (induction rows arbitrary: m)
  case Nil
  then show ?case by simp
next
  case (Cons a rows)
  obtain k v where a: "a = (k, v)" by (cases a)
  have "foldl (\<lambda>d (k, v). d(k \<mapsto> v)) m (a # rows)
          = foldl (\<lambda>d (k, v). d(k \<mapsto> v)) (m(k \<mapsto> v)) rows"
    unfolding a foldl_Cons prod.case ..
  also have "\<dots> = m(k \<mapsto> v) ++ map_of (rev rows)"
    by (rule Cons.IH)
  also have "\<dots> = m ++ map_of (rev (a # rows))"
    unfolding a by (rule ext) (simp add: map_add_def split: option.splits)
  finally show ?case .
qed

lemma dict_of_map_of: "dict_of rows = map_of (rev rows)"
  by (simp add: dict_of_def dict_of_fold)

lemma dom_dict_of: "dom (dict_of rows) = fst ` set rows"
  by (simp add: dict_of_map_of dom_map_of_conv_image_fst)

lemma dict_of_distinct:
  assumes "distinct (map fst rows)" and "(k, v) \<in> set rows"
  shows "dict_of rows k = Some v"
  using assms by (simp add: dict_of_map_of rev_map [symmetric])

lemma aggregate_keys:
  "fst ` set (aggregate_stats company model_ids s)
     = {m_id m | m. m \<in> set (models s) \<and> (m_company m = Some company \<or> is_public m)
                    \<and> m_id m \<in> set model_ids}"
  by (auto simp: aggregate_stats_def is_public_def image_iff)

lemma aggregate_distinct:
  "distinct (map m_id (models s)) \<Longrightarrow> distinct (map fst (aggregate_stats company model_ids s))"
  by (simp add: aggregate_stats_def o_def distinct_map_filter)

lemma aggregate_row:
  assumes "m \<in> set (models s)" and "m_company m = Some company \<or> is_public m"
    and "m_id m \<in> set model_ids"
  shows "(m_id m, \<lparr>labels_count = length (m_labels m)\<rparr>) \<in> set (aggregate_stats company model_ids s)"
  using assms by (auto simp: aggregate_stats_def is_public_def)

lemma get_model_stats_value:
  assumes "model_ids \<noteq> []" and "distinct (map m_id (models s))"
    and "m \<in> set (models s)" and "m_company m = Some company \<or> is_public m"
    and "m_id m \<in> set model_ids"
  shows "get_model_stats company model_ids s (m_id m) = Some \<lparr>labels_count = length (m_labels m)\<rparr>"
  using assms
  by (simp add: get_model_stats_def dict_of_distinct [OF aggregate_distinct aggregate_row])

text \<open>
  C9. For an empty list of ids, \<open>get_model_stats\<close> returns the empty mapping, whatever
  the store. For a non-empty list, the keys of the result are exactly the requested ids
  of Models whose company is the target company or is empty or null; other ids are
  absent and nothing is raised. With unique ids in the store, each such Model is mapped
  to the number of fields of its \<open>labels\<close>, which is the cardinality of the label mapping.
\<close>

theorem get_model_stats_spec:
  "get_model_stats company [] s = Map.empty
   \<and> (model_ids \<noteq> [] \<longrightarrow>
        dom (get_model_stats company model_ids s)
          = {m_id m | m. m \<in> set (models s) \<and> (m_company m = Some company \<or> is_public m)
                         \<and> m_id m \<in> set model_ids}
        \<and> (distinct (map m_id (models s)) \<longrightarrow>
             (\<forall>m \<in> set (models s).
                (m_company m = Some company \<or> is_public m) \<and> m_id m \<in> set model_ids \<longrightarrow>
                  get_model_stats company model_ids s (m_id m)
                    = Some \<lparr>labels_count = length (m_labels m)\<rparr>
                  \<and> (distinct (map fst (m_labels m)) \<longrightarrow>
                       length (m_labels m) = card (dom (map_of (m_labels m)))))))"
proof -
  have A: "get_model_stats company [] s = Map.empty"
    by (simp add: get_model_stats_def)
  have B: "dom (get_model_stats company model_ids s)
          = {m_id m | m. m \<in> set (models s) \<and> (m_company m = Some company \<or> is_public m)
                         \<and> m_id m \<in> set model_ids}" if "model_ids \<noteq> []"
    using that by (simp add: get_model_stats_def dom_dict_of aggregate_keys)
  have D: "length l = card (dom (map_of l))" if "distinct (map fst l)"
    for l :: "(string \<times> int) list"
  proof -
    have "card (fst ` set l) = length (map fst l)"
      using that distinct_card [of "map fst l"] by simp
    then show ?thesis by (simp add: dom_map_of_conv_image_fst)
  qed
  show ?thesis
    by (intro conjI impI ballI) (simp_all add: A B D get_model_stats_value)
qed

theorem get_model_stats_spec_witness:
  "[''M'', ''P'', ''O''] \<noteq> []
   \<and> distinct (map m_id [sample_model, public_model, foreign_model])
   \<and> get_model_stats ''C1'' []
        \<lparr>models = [sample_model, public_model, foreign_model], tasks = [], journal = []\<rparr>
       = Map.empty
   \<and> dom (get_model_stats ''C1'' [''M'', ''P'', ''O'']
        \<lparr>models = [sample_model, public_model, foreign_model], tasks = [], journal = []\<rparr>)
       = {''M'', ''P''}
   \<and> get_model_stats ''C1'' [''M'', ''P'', ''O'']
        \<lparr>models = [sample_model, public_model, foreign_model], tasks = [], journal = []\<rparr> ''M''
       = Some \<lparr>labels_count = 3\<rparr>
   \<and> get_model_stats ''C1'' [''M'', ''P'', ''O'']
        \<lparr>models = [sample_model, public_model, foreign_model], tasks = [], journal = []\<rparr> ''P''
       = Some \<lparr>labels_count = 0\<rparr>"
proof -
  let ?s = "\<lparr>models = [sample_model, public_model, foreign_model], tasks = [], journal = []\<rparr>"
  note t = get_model_stats_spec [of "''C1''" ?s "[''M'', ''P'', ''O'']"]
  have ne: "[''M'', ''P'', ''O''] \<noteq> []" by simp
  have d: "distinct (map m_id [sample_model, public_model, foreign_model])"
    by (simp add: sample_defs)
  have k: "{m_id m | m. m \<in> set (models ?s) \<and> (m_company m = Some ''C1'' \<or> is_public m)
                        \<and> m_id m \<in> set [''M'', ''P'', ''O'']} = {''M'', ''P''}"
  proof -
    have c: "{m_id m | m. m \<in> set xs \<and> P m} = set (map m_id (filter P xs))"
      for xs :: "Model list" and P
      by auto
    show ?thesis
      unfolding c by (simp add: is_public_def sample_defs)
  qed
  from t have e: "get_model_stats ''C1'' [] ?s = Map.empty" by blast
  from t ne k have dm: "dom (get_model_stats ''C1'' [''M'', ''P'', ''O''] ?s) = {''M'', ''P''}"
    by simp
  from t ne d have v: "\<forall>m \<in> set (models ?s).
      (m_company m = Some ''C1'' \<or> is_public m) \<and> m_id m \<in> set [''M'', ''P'', ''O''] \<longrightarrow>
         get_model_stats ''C1'' [''M'', ''P'', ''O''] ?s (m_id m)
           = Some \<lparr>labels_count = length (m_labels m)\<rparr>
         \<and> (distinct (map fst (m_labels m)) \<longrightarrow>
               length (m_labels m) = card (dom (map_of (m_labels m))))"
    by simp
  from v have "get_model_stats ''C1'' [''M'', ''P'', ''O''] ?s (m_id sample_model)
      = Some \<lparr>labels_count = length (m_labels sample_model)\<rparr>"
    by (simp add: sample_model_def)
  then have v1: "get_model_stats ''C1'' [''M'', ''P'', ''O''] ?s ''M'' = Some \<lparr>labels_count = 3\<rparr>"
    by (simp add: sample_model_def)
  from v have "get_model_stats ''C1'' [''M'', ''P'', ''O''] ?s (m_id public_model)
      = Some \<lparr>labels_count = length (m_labels public_model)\<rparr>"
    by (simp add: public_model_def is_public_def)
  then have v2: "get_model_stats ''C1'' [''M'', ''P'', ''O''] ?s ''P'' = Some \<lparr>labels_count = 0\<rparr>"
    by (simp add: public_model_def)
  from ne d e dm v1 v2 show ?thesis by blast
qed

subsection \<open>Public Models and the company-scoped lookup\<close>

lemma filter_unique:
  assumes "distinct (map f xs)" and "m \<in> set xs" and "P m"
  shows "filter (\<lambda>x. P x \<and> f x = f m) xs = [m]"
  using assms
proof (induction xs)
  case Nil
  then show ?case by simp
next
  case (Cons a xs)
  show ?case
  proof (cases "a = m")
    case True
    from Cons.prems(1) have "\<forall>x \<in> set xs. f x \<noteq> f a" by (auto simp: image_iff)
    then have "filter (\<lambda>x. P x \<and> f x = f m) xs = []"
      using True by (simp add: filter_empty_conv)
    with True Cons.prems(3) show ?thesis by simp
  next
    case False
    with Cons.prems have m: "m \<in> set xs" and d: "distinct (map f xs)" by simp_all
    from Cons.prems(1) m have "f a \<noteq> f m" by (auto simp: image_iff)
    with Cons.IH [OF d m Cons.prems(3)] show ?thesis by simp
  qed
qed

lemma public_not_in_company:
  assumes "m \<in> set (models s)" and "is_public m" and "distinct (map m_id (models s))"
    and "company_id \<noteq> []"
  shows "Model_objects company_id (m_id m) s = []"
proof -
  have "\<not> (m_company x = Some company_id \<and> m_id x = m_id m)" if x: "x \<in> set (models s)" for x
  proof
    assume a: "m_company x = Some company_id \<and> m_id x = m_id m"
    from assms(3) have "inj_on m_id (set (models s))" by (simp add: distinct_map)
    with x assms(1) a have "x = m" by (auto dest: inj_onD)
    with a assms(2,4) show False by (auto simp: is_public_def)
  qed
  then show ?thesis by (simp add: Model_objects_def filter_empty_conv)
qed

lemma not_resolved:
  "Model_objects company_id model_id s = [] \<Longrightarrow>
     get_company_model_by_id company_id model_id only s
       = Inl (InvalidModelId (By_query company_id model_id))"
  by (simp add: get_company_model_by_id_def first_def)

lemma assert_exists_public:
  assumes "m \<in> set (models s)" and "is_public m" and "distinct (map m_id (models s))"
  shows "assert_exists company_id (One (m_id m)) None True True s = Inr (Some [m])"
proof -
  have "filter (\<lambda>x. (m_company x = Some company_id \<or> is_public x) \<and> m_id x = m_id m) (models s) = [m]"
    using filter_unique [OF assms(3) assms(1), of "\<lambda>x. m_company x = Some company_id \<or> is_public x"] assms(2)
    by simp
  then have "get_many company_id [m_id m] True s = [m]"
    by (simp add: get_many_def)
  then show ?thesis
    by (simp add: assert_exists_def only_opt_def)
qed

text \<open>
  C10. \<open>get_company_model_by_id\<close> returns only a document whose company equals the given
  company id. So for a public Model (company empty or null) in a store with unique ids,
  and for every tenant (a non-empty company id: the empty company denotes public, not a
  tenant), the lookup and with it \<open>publish_model\<close>, \<open>delete_model\<close>, \<open>archive_model\<close> and
  \<open>unarchive_model\<close> raise \<open>InvalidModelId\<close> and leave the store as it was, while
  \<open>assert_exists\<close> with \<open>allow_public\<close> returns the Model and \<open>get_model_stats\<close> has an
  entry for it.
\<close>

theorem public_model_not_resolvable_by_company:
  assumes "m \<in> set (models s)" and "is_public m" and "distinct (map m_id (models s))"
    and "company_id \<noteq> []"
  shows "(\<forall>model. get_company_model_by_id company_id model_id only s = Inr model \<longrightarrow>
            (\<exists>x \<in> set (models s). m_company x = Some company_id \<and> m_id x = model_id
                                  \<and> model = only_opt only x))
       \<and> get_company_model_by_id company_id (m_id m) only s
           = Inl (InvalidModelId (By_query company_id (m_id m)))
       \<and> publish_model (m_id m) company_id user_id force_publish_task publish_task_func now s
           = (Inl (InvalidModelId (By_query company_id (m_id m))), s)
       \<and> delete_model deleted_prefix (m_id m) company_id force now s
           = (Inl (InvalidModelId (By_query company_id (m_id m))), s)
       \<and> archive_model (m_id m) company_id now s
           = (Inl (InvalidModelId (By_query company_id (m_id m))), s)
       \<and> unarchive_model (m_id m) company_id now s
           = (Inl (InvalidModelId (By_query company_id (m_id m))), s)
       \<and> assert_exists company_id (One (m_id m)) None True True s = Inr (Some [m])
       \<and> get_model_stats company_id [m_id m] s (m_id m)
           = Some \<lparr>labels_count = length (m_labels m)\<rparr>"
proof -
  note e = public_not_in_company [OF assms]
  have "get_model_stats company_id [m_id m] s (m_id m)
           = Some \<lparr>labels_count = length (m_labels m)\<rparr>"
    using assms by (simp add: get_model_stats_value)
  moreover have "\<exists>x \<in> set (models s). m_company x = Some company_id \<and> m_id x = model_id
                                  \<and> model = only_opt only x"
    if "get_company_model_by_id company_id model_id only s = Inr model" for model
  proof -
    from that obtain x where f: "first (Model_objects company_id model_id s) = Some x"
      and x: "model = only_opt only x"
      by (auto simp: get_company_model_by_id_def split: option.splits)
    from first_Some_mem [OF f] x show ?thesis
      by (auto simp: Model_objects_def)
  qed
  ultimately show ?thesis
    by (simp add: not_resolved [OF e] publish_model_def delete_model_def archive_model_def
        unarchive_model_def assert_exists_public [OF assms(1,2,3)])
qed

theorem public_model_not_resolvable_by_company_witness:
  "public_model \<in> set (models sample_store) \<and> is_public public_model
   \<and> distinct (map m_id (models sample_store)) \<and> ''C1'' \<noteq> []
   \<and> get_company_model_by_id ''C1'' ''P'' None sample_store
       = Inl (InvalidModelId (By_query ''C1'' ''P''))
   \<and> publish_model ''P'' ''C1'' ''U'' False (Some working_publish_task) ''2021-06-01T00:00:00''
        sample_store = (Inl (InvalidModelId (By_query ''C1'' ''P'')), sample_store)
   \<and> delete_model ''__DELETED__'' ''P'' ''C1'' True ''2021-06-01T00:00:00'' sample_store
       = (Inl (InvalidModelId (By_query ''C1'' ''P'')), sample_store)
   \<and> archive_model ''P'' ''C1'' ''2021-06-01T00:00:00'' sample_store
       = (Inl (InvalidModelId (By_query ''C1'' ''P'')), sample_store)
   \<and> unarchive_model ''P'' ''C1'' ''2021-06-01T00:00:00'' sample_store
       = (Inl (InvalidModelId (By_query ''C1'' ''P'')), sample_store)
   \<and> assert_exists ''C1'' (One ''P'') None True True sample_store = Inr (Some [public_model])
   \<and> get_model_stats ''C1'' [''P''] sample_store ''P'' = Some \<lparr>labels_count = 0\<rparr>"
proof -
  have h1: "public_model \<in> set (models sample_store)" by (simp add: sample_store_def)
  have h2: "is_public public_model" by (simp add: is_public_def public_model_def)
  have h3: "distinct (map m_id (models sample_store))" by (simp add: sample_defs)
  have h4: "''C1'' \<noteq> []" by simp
  have i: "m_id public_model = ''P''" "m_labels public_model = []"
    by (simp_all add: public_model_def)
  show ?thesis
    using h1 h2 h3 h4
      public_model_not_resolvable_by_company [OF h1 h2 h3 h4, where only = None
        and user_id = "''U''" and force_publish_task = False
        and publish_task_func = "Some working_publish_task"
        and now = "''2021-06-01T00:00:00''" and deleted_prefix = "''__DELETED__''"
        and force = True]
    by (simp add: i)
qed

end
